theory Spec2Isabelle
  imports Main "HOL-Library.Word"
begin

section \<open>Python values\<close>

text \<open>
  The SDK handles the values that the JSON decoder of the HTTP library produces and
  that its encoder accepts: \<^verbatim>\<open>None\<close>, booleans, integers, strings, lists and
  dictionaries with string keys. A dictionary is an association list in insertion order;
  a dictionary has no duplicate keys, and lookup takes the first entry. JSON numbers with a
  fraction (Python floats) are outside the model. A \<^verbatim>\<open>bytes\<close> object is a list
  of 8-bit words.
\<close>

datatype pyval =
    PNone
  | PBool bool
  | PInt int
  | PStr string
  | PList "pyval list"
  | PDict "(string \<times> pyval) list"

type_synonym bytes = "8 word list"

text \<open>Truth value testing (\<^verbatim>\<open>bool(v)\<close>, \<^verbatim>\<open>if v\<close>, \<^verbatim>\<open>not v\<close>, \<^verbatim>\<open>a or b\<close>).\<close>

fun truthy :: "pyval \<Rightarrow> bool" where
  "truthy PNone = False"
| "truthy (PBool b) = b"
| "truthy (PInt n) = (n \<noteq> 0)"
| "truthy (PStr s) = (s \<noteq> [])"
| "truthy (PList xs) = (xs \<noteq> [])"
| "truthy (PDict kvs) = (kvs \<noteq> [])"

text \<open>\<^verbatim>\<open>a or b\<close>: the first operand when it is truthy, the second otherwise.\<close>

definition py_or :: "pyval \<Rightarrow> pyval \<Rightarrow> pyval" where
  "py_or a b = (if truthy a then a else b)"

subsection \<open>Exceptions\<close>

text \<open>
  The exception classes that occur: the three of \<^verbatim>\<open>exceptions.py\<close>, the built-in
  ones that the interpreter or the SDK raises, and those of the HTTP library
  (\<^verbatim>\<open>requests.exceptions\<close>) together with the decoder's \<^verbatim>\<open>json.JSONDecodeError\<close>.
  \<open>mro\<close> lists a class with all its ancestors, so that \<^verbatim>\<open>isinstance\<close> and the
  matching of an \<^verbatim>\<open>except\<close> clause are membership tests.
\<close>

datatype exc_class =
    BaseException_c | Exception_c
  | ValueError_c | RuntimeError_c | NotImplementedError_c
  | LookupError_c | KeyError_c | IndexError_c | TypeError_c | AttributeError_c | OSError_c
  | JSONDecodeError_c
  | RequestException_c | Timeout_c | ConnectTimeout_c | ReadTimeout_c
  | ConnectionError_c | HTTPError_c | InvalidJSONError_c | RequestsJSONDecodeError_c
  | ThroomError_c | ThroomAPIError_c | ThroomConnectionError_c

fun mro :: "exc_class \<Rightarrow> exc_class list" where
  "mro BaseException_c = [BaseException_c]"
| "mro Exception_c = [Exception_c, BaseException_c]"
| "mro ValueError_c = [ValueError_c, Exception_c, BaseException_c]"
| "mro RuntimeError_c = [RuntimeError_c, Exception_c, BaseException_c]"
| "mro NotImplementedError_c =
     [NotImplementedError_c, RuntimeError_c, Exception_c, BaseException_c]"
| "mro LookupError_c = [LookupError_c, Exception_c, BaseException_c]"
| "mro KeyError_c = [KeyError_c, LookupError_c, Exception_c, BaseException_c]"
| "mro IndexError_c = [IndexError_c, LookupError_c, Exception_c, BaseException_c]"
| "mro TypeError_c = [TypeError_c, Exception_c, BaseException_c]"
| "mro AttributeError_c = [AttributeError_c, Exception_c, BaseException_c]"
| "mro OSError_c = [OSError_c, Exception_c, BaseException_c]"
| "mro JSONDecodeError_c = [JSONDecodeError_c, ValueError_c, Exception_c, BaseException_c]"
| "mro RequestException_c = [RequestException_c, OSError_c, Exception_c, BaseException_c]"
| "mro Timeout_c =
     [Timeout_c, RequestException_c, OSError_c, Exception_c, BaseException_c]"
| "mro ConnectTimeout_c =
     [ConnectTimeout_c, ConnectionError_c, Timeout_c, RequestException_c, OSError_c,
      Exception_c, BaseException_c]"
| "mro ReadTimeout_c =
     [ReadTimeout_c, Timeout_c, RequestException_c, OSError_c, Exception_c, BaseException_c]"
| "mro ConnectionError_c =
     [ConnectionError_c, RequestException_c, OSError_c, Exception_c, BaseException_c]"
| "mro HTTPError_c =
     [HTTPError_c, RequestException_c, OSError_c, Exception_c, BaseException_c]"
| "mro InvalidJSONError_c =
     [InvalidJSONError_c, RequestException_c, OSError_c, Exception_c, BaseException_c]"
| "mro RequestsJSONDecodeError_c =
     [RequestsJSONDecodeError_c, InvalidJSONError_c, RequestException_c, OSError_c,
      JSONDecodeError_c, ValueError_c, Exception_c, BaseException_c]"
| "mro ThroomError_c = [ThroomError_c, Exception_c, BaseException_c]"
| "mro ThroomAPIError_c =
     [ThroomAPIError_c, ThroomError_c, Exception_c, BaseException_c]"
| "mro ThroomConnectionError_c =
     [ThroomConnectionError_c, ThroomError_c, Exception_c, BaseException_c]"

text \<open>
  A raised exception. \<open>ThroomAPIError\<close> has its message and its \<^verbatim>\<open>status_code\<close>
  attribute; the other exceptions of the SDK have their message. \<open>KeyError\<close> has the
  missing key. The text of an \<open>IndexError\<close>, \<open>TypeError\<close> or \<open>AttributeError\<close> of the
  interpreter is not modelled. \<open>LibraryError c s\<close> is an exception of class \<open>c\<close> raised inside
  the HTTP library, with \<^verbatim>\<open>str(e) = s\<close>.
\<close>

datatype py_exc =
    ThroomAPIError string int
  | ThroomConnectionError string
  | ValueError string
  | NotImplementedError string
  | KeyError pyval
  | IndexError
  | TypeError
  | AttributeError
  | LibraryError exc_class string

fun class_of :: "py_exc \<Rightarrow> exc_class" where
  "class_of (ThroomAPIError m sc) = ThroomAPIError_c"
| "class_of (ThroomConnectionError m) = ThroomConnectionError_c"
| "class_of (ValueError m) = ValueError_c"
| "class_of (NotImplementedError m) = NotImplementedError_c"
| "class_of (KeyError k) = KeyError_c"
| "class_of IndexError = IndexError_c"
| "class_of TypeError = TypeError_c"
| "class_of AttributeError = AttributeError_c"
| "class_of (LibraryError c s) = c"

definition isinstance :: "py_exc \<Rightarrow> exc_class \<Rightarrow> bool" where
  "isinstance e c = (c \<in> set (mro (class_of e)))"

text \<open>The \<^verbatim>\<open>status_code\<close> attribute, which only \<open>ThroomAPIError\<close> sets.\<close>

fun status_code :: "py_exc \<Rightarrow> int option" where
  "status_code (ThroomAPIError m sc) = Some sc"
| "status_code e = None"

text \<open>A computation that returns a value or raises; \<open>bind_exc\<close> sequences two.\<close>

type_synonym 'a result = "py_exc + 'a"

fun bind_exc :: "'a result \<Rightarrow> ('a \<Rightarrow> 'b result) \<Rightarrow> 'b result" where
  "bind_exc (Inl e) f = Inl e"
| "bind_exc (Inr v) f = f v"

subsection \<open>Dictionary and sequence operations\<close>

text \<open>\<^verbatim>\<open>d.get(k)\<close> and \<^verbatim>\<open>d.get(k, default)\<close>: only a dictionary has the method.\<close>

fun py_get :: "pyval \<Rightarrow> string \<Rightarrow> pyval \<Rightarrow> pyval result" where
  "py_get (PDict kvs) k dflt = Inr (case map_of kvs k of Some v \<Rightarrow> v | None \<Rightarrow> dflt)"
| "py_get v k dflt = Inl AttributeError"

text \<open>\<^verbatim>\<open>d[k]\<close> with a string key: a missing key raises \<open>KeyError\<close>, a value that is
  not a dictionary raises \<open>TypeError\<close> (a list or string index must be an integer, the
  other values are not subscriptable).\<close>

fun py_getitem :: "pyval \<Rightarrow> string \<Rightarrow> pyval result" where
  "py_getitem (PDict kvs) k =
     (case map_of kvs k of Some v \<Rightarrow> Inr v | None \<Rightarrow> Inl (KeyError (PStr k)))"
| "py_getitem v k = Inl TypeError"

text \<open>\<^verbatim>\<open>v[0]\<close>: the first element of a list, the first character of a string; a
  dictionary of the decoder has string keys only, so the key \<open>0\<close> is missing.\<close>

fun py_getitem0 :: "pyval \<Rightarrow> pyval result" where
  "py_getitem0 (PList []) = Inl IndexError"
| "py_getitem0 (PList (x # xs)) = Inr x"
| "py_getitem0 (PStr []) = Inl IndexError"
| "py_getitem0 (PStr (c # cs)) = Inr (PStr [c])"
| "py_getitem0 (PDict kvs) = Inl (KeyError (PInt 0))"
| "py_getitem0 v = Inl TypeError"

text \<open>Iteration (\<^verbatim>\<open>for x in v\<close>): a list gives its elements, a dictionary its keys, a
  string its characters; the other values are not iterable.\<close>

fun py_iter :: "pyval \<Rightarrow> pyval list result" where
  "py_iter (PList xs) = Inr xs"
| "py_iter (PDict kvs) = Inr (map (\<lambda>kv. PStr (fst kv)) kvs)"
| "py_iter (PStr s) = Inr (map (\<lambda>c. PStr [c]) s)"
| "py_iter v = Inl TypeError"

subsection \<open>Formatting\<close>

text \<open>
  \<^verbatim>\<open>str\<close> and \<^verbatim>\<open>repr\<close>, which an f-string applies to its fields. An
  integer prints in decimal. \<^verbatim>\<open>repr\<close> of a string quotes it with single
  quotes, or with double quotes when it contains a single quote and no double quote, and
  escapes the backslash, the quote, tab, newline, carriage return and the unprintable
  characters (below 0x20, from 0x7f to 0xa0, and 0xad).
\<close>

definition digit_char :: "nat \<Rightarrow> char" where
  "digit_char n = ''0123456789abcdef'' ! (n mod 16)"

function str_nat :: "nat \<Rightarrow> string" where
  "str_nat n = (if n < 10 then [digit_char n] else str_nat (n div 10) @ [digit_char (n mod 10)])"
  by pat_completeness auto
termination
  by (relation "measure (\<lambda>n. n)") auto

declare str_nat.simps [simp del]

definition str_int :: "int \<Rightarrow> string" where
  "str_int i = (if i < 0 then CHR ''-'' # str_nat (nat (- i)) else str_nat (nat i))"

definition printable :: "char \<Rightarrow> bool" where
  "printable c =
     (let n = (of_char c :: nat) in (32 \<le> n \<and> n < 127) \<or> (161 \<le> n \<and> n \<noteq> 173))"

definition repr_char :: "char \<Rightarrow> char \<Rightarrow> string" where
  "repr_char q c =
     (if c = q \<or> c = CHR 0x5C then [CHR 0x5C, c]
      else if c = CHR 0x09 then [CHR 0x5C, CHR ''t'']
      else if c = CHR 0x0A then [CHR 0x5C, CHR ''n'']
      else if c = CHR 0x0D then [CHR 0x5C, CHR ''r'']
      else if printable c then [c]
      else [CHR 0x5C, CHR ''x'', digit_char (of_char c div 16), digit_char (of_char c mod 16)])"

definition repr_str :: "string \<Rightarrow> string" where
  "repr_str s =
     (let q = (if CHR 0x27 \<in> set s \<and> CHR 0x22 \<notin> set s then CHR 0x22 else CHR 0x27)
      in q # concat (map (repr_char q) s) @ [q])"

fun join :: "string \<Rightarrow> string list \<Rightarrow> string" where
  "join sep [] = []"
| "join sep [x] = x"
| "join sep (x # y # ys) = x @ sep @ join sep (y # ys)"

fun py_repr :: "pyval \<Rightarrow> string" where
  "py_repr PNone = ''None''"
| "py_repr (PBool b) = (if b then ''True'' else ''False'')"
| "py_repr (PInt n) = str_int n"
| "py_repr (PStr s) = repr_str s"
| "py_repr (PList xs) = ''['' @ join '', '' (map py_repr xs) @ '']''"
| "py_repr (PDict kvs) =
     ''{'' @ join '', '' (map (\<lambda>kv. repr_str (fst kv) @ '': '' @ py_repr (snd kv)) kvs) @ ''}''"

fun py_str :: "pyval \<Rightarrow> string" where
  "py_str (PStr s) = s"
| "py_str v = py_repr v"

section \<open>The transport\<close>

text \<open>
  The keyword arguments of \<^verbatim>\<open>session.request\<close> and the parts of its response
  that the SDK reads. \<open>resp_json\<close> is what \<^verbatim>\<open>response.json()\<close> does: it returns the
  decoded body, or raises when the body is not JSON (\<^verbatim>\<open>requests.exceptions.JSONDecodeError\<close>
  since version 2.27 of the library, a \<^verbatim>\<open>ValueError\<close> of the decoder before).
  The session is a function from the requests made so far and the request to the
  outcome of the call; the list of requests made is threaded through every operation.
  The headers of the session, the same for every request, are left out.
\<close>

record http_request =
  req_method :: string
  req_url :: string
  req_json :: "pyval option"
  req_params :: "pyval option"
  req_timeout :: int

record response =
  resp_status_code :: int
  resp_content :: bytes
  resp_text :: string
  resp_json :: "pyval result"

type_synonym transport = "http_request list \<Rightarrow> http_request \<Rightarrow> response result"

record ThroomClient =
  base_url :: string
  timeout :: int
  session :: transport

text \<open>\<^verbatim>\<open>base_url.rstrip("/")\<close>\<close>

definition rstrip_slash :: "string \<Rightarrow> string" where
  "rstrip_slash s = rev (dropWhile (\<lambda>c. c = CHR ''/'') (rev s))"

text \<open>\<^verbatim>\<open>ThroomClient.__init__\<close>; the default timeout is 120.\<close>

definition ThroomClient_init :: "transport \<Rightarrow> string \<Rightarrow> int \<Rightarrow> ThroomClient" where
  "ThroomClient_init sess url t =
     \<lparr>base_url = rstrip_slash url, timeout = t, session = sess\<rparr>"

text \<open>
  The two \<^verbatim>\<open>except\<close> clauses of \<^verbatim>\<open>_request\<close>, in their order. Only an exception
  raised inside the HTTP library can be an instance of its classes; every other exception
  passes through.
\<close>

fun except_clauses :: "py_exc \<Rightarrow> py_exc" where
  "except_clauses (LibraryError c s) =
     (if Timeout_c \<in> set (mro c) then ThroomConnectionError (''Request timed out: '' @ s)
      else if RequestException_c \<in> set (mro c)
        then ThroomConnectionError (''Connection error: '' @ s)
      else LibraryError c s)"
| "except_clauses e = e"

text \<open>
  \<^verbatim>\<open>ThroomClient._request\<close>. A return value \<open>PNone\<close> is Python's \<^verbatim>\<open>None\<close>.
  Everything from the call of the session to the \<^verbatim>\<open>return\<close> is inside the
  \<^verbatim>\<open>try\<close> block, so the \<^verbatim>\<open>except\<close> clauses see every exception raised there. The
  two \<^verbatim>\<open>get\<close> calls of the \<^verbatim>\<open>or\<close> chain are on the same value and raise together
  or not at all, so the second is evaluated with the first.
\<close>

definition ThroomClient_request ::
  "ThroomClient \<Rightarrow> string \<Rightarrow> string \<Rightarrow> pyval option \<Rightarrow> pyval option \<Rightarrow> http_request list
     \<Rightarrow> pyval result \<times> http_request list" where
  "ThroomClient_request self method path data params log =
     (let url = base_url self @ path;
          req = \<lparr>req_method = method, req_url = url, req_json = data, req_params = params,
                 req_timeout = timeout self\<rparr>
      in (case_sum (\<lambda>e. Inl (except_clauses e)) Inr
            (bind_exc (session self log req) (\<lambda>response.
               if resp_status_code response \<ge> 400 then
                 bind_exc (if resp_content response \<noteq> [] then resp_json response
                           else Inr (PDict [])) (\<lambda>error_data.
                 bind_exc (py_get error_data ''message'' PNone) (\<lambda>m1.
                 bind_exc (py_get error_data ''error'' PNone) (\<lambda>m2.
                   let message = py_or (py_or m1 m2) (PStr (resp_text response)) in
                   Inl (ThroomAPIError
                         (''Throome API Error ('' @ str_int (resp_status_code response) @ ''): ''
                            @ py_str message)
                         (resp_status_code response)))))
               else if resp_content response \<noteq> [] then resp_json response
               else Inr PNone)),
          log @ [req]))"

section \<open>The dataclasses\<close>

text \<open>
  A dataclass does not check the types of its fields: a record built from a decoded
  response holds whatever values the response has, so those fields are \<open>pyval\<close>. A
  \<open>ServiceConfig\<close> and an \<open>ActivityFilters\<close> are built by the caller, with the declared
  types.
\<close>

record Service =
  svc_name :: pyval
  svc_type :: pyval
  svc_host :: pyval
  svc_port :: pyval
  svc_healthy :: pyval
  svc_username :: pyval
  svc_database :: pyval
  svc_container_id :: pyval

record Cluster =
  cl_id :: pyval
  cl_name :: pyval
  cl_created_at :: pyval
  cl_services :: "Service list"

record ServiceConfig =
  cfg_type :: string
  cfg_provision :: bool
  cfg_port :: int
  cfg_host :: "string option"
  cfg_username :: "string option"
  cfg_password :: "string option"
  cfg_database :: "string option"

record CreateClusterResponse =
  ccr_cluster_id :: pyval
  ccr_message :: pyval

record ActivityLog =
  log_id :: pyval
  log_timestamp :: pyval
  log_cluster_id :: pyval
  log_service_name :: pyval
  log_service_type :: pyval
  log_operation :: pyval
  log_command :: pyval
  log_parameters :: pyval
  log_duration :: pyval
  log_status :: pyval
  log_response :: pyval
  log_error :: pyval
  log_client_info :: pyval

record ActivityFilters =
  limit :: "int option"

text \<open>
  Calling a dataclass with \<^verbatim>\<open>**v\<close>: \<open>v\<close> must be a mapping, every key must be a
  field, and every field without a default must be given; otherwise \<open>TypeError\<close>. The
  result gives each field its value, the default \<^verbatim>\<open>None\<close> when the key is absent.
\<close>

definition kwargs :: "string list \<Rightarrow> string list \<Rightarrow> pyval \<Rightarrow> (string \<Rightarrow> pyval) result" where
  "kwargs required optional v =
     (case v of
        PDict kw \<Rightarrow>
          if list_all (\<lambda>k. k \<in> set (required @ optional)) (map fst kw)
             \<and> list_all (\<lambda>k. k \<in> set (map fst kw)) required
          then Inr (\<lambda>k. case map_of kw k of Some x \<Rightarrow> x | None \<Rightarrow> PNone)
          else Inl TypeError
      | _ \<Rightarrow> Inl TypeError)"

definition Service_init :: "pyval \<Rightarrow> Service result" where
  "Service_init s =
     bind_exc (kwargs [''name'', ''type'', ''host'', ''port'', ''healthy'']
                 [''username'', ''database'', ''container_id''] s)
       (\<lambda>a. Inr \<lparr>svc_name = a ''name'', svc_type = a ''type'', svc_host = a ''host'',
                 svc_port = a ''port'', svc_healthy = a ''healthy'',
                 svc_username = a ''username'', svc_database = a ''database'',
                 svc_container_id = a ''container_id''\<rparr>)"

definition CreateClusterResponse_init :: "pyval \<Rightarrow> CreateClusterResponse result" where
  "CreateClusterResponse_init d =
     bind_exc (kwargs [''cluster_id'', ''message''] [] d)
       (\<lambda>a. Inr \<lparr>ccr_cluster_id = a ''cluster_id'', ccr_message = a ''message''\<rparr>)"

definition ActivityLog_init :: "pyval \<Rightarrow> ActivityLog result" where
  "ActivityLog_init d =
     bind_exc (kwargs [''id'', ''timestamp'', ''cluster_id'', ''service_name'', ''service_type'',
                  ''operation'', ''command'', ''parameters'', ''duration'', ''status'', ''response'']
                 [''error'', ''client_info''] d)
       (\<lambda>a. Inr \<lparr>log_id = a ''id'', log_timestamp = a ''timestamp'',
                 log_cluster_id = a ''cluster_id'', log_service_name = a ''service_name'',
                 log_service_type = a ''service_type'', log_operation = a ''operation'',
                 log_command = a ''command'', log_parameters = a ''parameters'',
                 log_duration = a ''duration'', log_status = a ''status'',
                 log_response = a ''response'', log_error = a ''error'',
                 log_client_info = a ''client_info''\<rparr>)"

text \<open>A list comprehension \<^verbatim>\<open>[f(x) for x in xs]\<close>: the first exception ends it.\<close>

fun comprehension :: "('a \<Rightarrow> 'b result) \<Rightarrow> 'a list \<Rightarrow> 'b list result" where
  "comprehension f [] = Inr []"
| "comprehension f (x # xs) =
     bind_exc (f x) (\<lambda>y. bind_exc (comprehension f xs) (\<lambda>ys. Inr (y # ys)))"

text \<open>An operation's outcome and the requests made; \<open>then_exc\<close> continues after a call
  of \<^verbatim>\<open>_request\<close> with the value it returned.\<close>

type_synonym 'a outcome = "'a result \<times> http_request list"

definition then_exc :: "'a outcome \<Rightarrow> ('a \<Rightarrow> 'b result) \<Rightarrow> 'b outcome" where
  "then_exc r f = (bind_exc (fst r) f, snd r)"

section \<open>The root client\<close>

text \<open>\<^verbatim>\<open>ThroomClient.list_clusters\<close>\<close>

definition ThroomClient_list_clusters :: "ThroomClient \<Rightarrow> http_request list \<Rightarrow> Cluster list outcome" where
  "ThroomClient_list_clusters self log =
     then_exc (ThroomClient_request self ''GET'' ''/api/v1/clusters'' None None log) (\<lambda>data.
       bind_exc (py_iter data) (comprehension (\<lambda>c.
         bind_exc (py_getitem c ''id'') (\<lambda>i.
         bind_exc (py_getitem c ''name'') (\<lambda>n.
         bind_exc (py_getitem c ''created_at'') (\<lambda>t.
         bind_exc (py_get c ''services'' (PList [])) (\<lambda>sv.
         bind_exc (py_iter sv) (\<lambda>ss.
         bind_exc (comprehension Service_init ss) (\<lambda>services.
           Inr \<lparr>cl_id = i, cl_name = n, cl_created_at = t, cl_services = services\<rparr>)))))))))"

text \<open>\<^verbatim>\<open>ThroomClient.get_cluster\<close>\<close>

definition ThroomClient_get_cluster ::
  "ThroomClient \<Rightarrow> string \<Rightarrow> http_request list \<Rightarrow> Cluster outcome" where
  "ThroomClient_get_cluster self cluster_id log =
     then_exc (ThroomClient_request self ''GET'' (''/api/v1/clusters/'' @ cluster_id) None None log)
       (\<lambda>data.
         bind_exc (py_getitem data ''id'') (\<lambda>i.
         bind_exc (py_getitem data ''name'') (\<lambda>n.
         bind_exc (py_getitem data ''created_at'') (\<lambda>t.
         bind_exc (py_get data ''services'' (PList [])) (\<lambda>sv.
         bind_exc (py_iter sv) (\<lambda>ss.
         bind_exc (comprehension Service_init ss) (\<lambda>services.
           Inr \<lparr>cl_id = i, cl_name = n, cl_created_at = t, cl_services = services\<rparr>)))))))"

text \<open>The Python value of an \<^verbatim>\<open>Optional[str]\<close> field.\<close>

fun optional_str :: "string option \<Rightarrow> pyval" where
  "optional_str None = PNone"
| "optional_str (Some s) = PStr s"

text \<open>\<^verbatim>\<open>ThroomClient.create_cluster\<close>. The mapping \<open>services\<close> is the list of its
  items; the comprehension has its own \<open>name\<close>, which does not change the argument.\<close>

definition ThroomClient_create_cluster ::
  "ThroomClient \<Rightarrow> string \<Rightarrow> (string \<times> ServiceConfig) list \<Rightarrow> http_request list
     \<Rightarrow> CreateClusterResponse outcome" where
  "ThroomClient_create_cluster self name services log =
     (let services_dict =
            PDict (map (\<lambda>(name, config).
                     (name,
                      PDict [(''type'', PStr (cfg_type config)),
                             (''port'', PInt (cfg_port config)),
                             (''host'', optional_str (cfg_host config)),
                             (''username'', optional_str (cfg_username config)),
                             (''password'', optional_str (cfg_password config)),
                             (''database'', optional_str (cfg_database config))]))
                   services)
      in then_exc
           (ThroomClient_request self ''POST'' ''/api/v1/clusters''
              (Some (PDict [(''name'', PStr name), (''services'', services_dict)])) None log)
           CreateClusterResponse_init)"

text \<open>\<^verbatim>\<open>ThroomClient.get_activity\<close>. An \<open>ActivityFilters\<close> object is truthy, so
  \<^verbatim>\<open>filters and filters.limit\<close> is falsy when there is no filter, no limit, or the limit 0.\<close>

definition ThroomClient_get_activity ::
  "ThroomClient \<Rightarrow> ActivityFilters option \<Rightarrow> http_request list \<Rightarrow> ActivityLog list outcome" where
  "ThroomClient_get_activity self filters log =
     (let params =
            (case filters of
               None \<Rightarrow> None
             | Some f \<Rightarrow>
                 (case limit f of
                    None \<Rightarrow> None
                  | Some n \<Rightarrow> if n \<noteq> 0 then Some (PDict [(''limit'', PInt n)]) else None))
      in then_exc (ThroomClient_request self ''GET'' ''/api/v1/activity'' None params log)
           (\<lambda>data. bind_exc (py_iter data) (comprehension ActivityLog_init)))"

section \<open>The scoped clients\<close>

datatype ClusterClient = ClusterClient ThroomClient string

datatype ServiceClient = ServiceClient ThroomClient string string

datatype DBClient = DBClient ThroomClient string

datatype QueueClient = QueueClient ThroomClient string

text \<open>\<^verbatim>\<open>ThroomClient.cluster\<close>, \<^verbatim>\<open>ClusterClient.service\<close>, \<^verbatim>\<open>ClusterClient.db\<close>,
  \<^verbatim>\<open>ClusterClient.queue\<close>\<close>

definition ThroomClient_cluster :: "ThroomClient \<Rightarrow> string \<Rightarrow> ClusterClient" where
  "ThroomClient_cluster self cluster_id = ClusterClient self cluster_id"

fun ClusterClient_service :: "ClusterClient \<Rightarrow> string \<Rightarrow> ServiceClient" where
  "ClusterClient_service (ClusterClient client cluster_id) service_name =
     ServiceClient client cluster_id service_name"

fun ClusterClient_db :: "ClusterClient \<Rightarrow> DBClient" where
  "ClusterClient_db (ClusterClient client cluster_id) = DBClient client cluster_id"

fun ClusterClient_queue :: "ClusterClient \<Rightarrow> QueueClient" where
  "ClusterClient_queue (ClusterClient client cluster_id) = QueueClient client cluster_id"

text \<open>\<^verbatim>\<open>ClusterClient.get_activity\<close>\<close>

fun ClusterClient_get_activity ::
  "ClusterClient \<Rightarrow> ActivityFilters option \<Rightarrow> http_request list \<Rightarrow> ActivityLog list outcome" where
  "ClusterClient_get_activity (ClusterClient client cluster_id) filters log =
     (let params =
            (case filters of
               None \<Rightarrow> None
             | Some f \<Rightarrow>
                 (case limit f of
                    None \<Rightarrow> None
                  | Some n \<Rightarrow> if n \<noteq> 0 then Some (PDict [(''limit'', PInt n)]) else None))
      in then_exc
           (ThroomClient_request client ''GET'' (''/api/v1/clusters/'' @ cluster_id @ ''/activity'')
              None params log)
           (\<lambda>data. bind_exc (py_iter data) (comprehension ActivityLog_init)))"

text \<open>\<^verbatim>\<open>ServiceClient.get_activity\<close>\<close>

fun ServiceClient_get_activity ::
  "ServiceClient \<Rightarrow> ActivityFilters option \<Rightarrow> http_request list \<Rightarrow> ActivityLog list outcome" where
  "ServiceClient_get_activity (ServiceClient client cluster_id service_name) filters log =
     (let params =
            (case filters of
               None \<Rightarrow> None
             | Some f \<Rightarrow>
                 (case limit f of
                    None \<Rightarrow> None
                  | Some n \<Rightarrow> if n \<noteq> 0 then Some (PDict [(''limit'', PInt n)]) else None))
      in then_exc
           (ThroomClient_request client ''GET''
              (''/api/v1/clusters/'' @ cluster_id @ ''/services/'' @ service_name @ ''/activity'')
              None params log)
           (\<lambda>data. bind_exc (py_iter data) (comprehension ActivityLog_init)))"

text \<open>\<^verbatim>\<open>DBClient.query\<close>; \<open>args\<close> is the list of the positional arguments.\<close>

fun DBClient_query ::
  "DBClient \<Rightarrow> string \<Rightarrow> pyval list \<Rightarrow> http_request list \<Rightarrow> pyval outcome" where
  "DBClient_query (DBClient client cluster_id) query args log =
     then_exc
       (ThroomClient_request client ''POST'' (''/api/v1/clusters/'' @ cluster_id @ ''/db/query'')
          (Some (PDict [(''query'', PStr query), (''args'', PList args)])) None log)
       (\<lambda>data. py_getitem data ''rows'')"

text \<open>\<^verbatim>\<open>DBClient.query_row\<close>\<close>

definition DBClient_query_row ::
  "DBClient \<Rightarrow> string \<Rightarrow> pyval list \<Rightarrow> http_request list \<Rightarrow> pyval outcome" where
  "DBClient_query_row self query args log =
     then_exc (DBClient_query self query args log) (\<lambda>rows.
       if \<not> truthy rows then Inl (ValueError ''No rows returned'')
       else py_getitem0 rows)"

text \<open>\<^verbatim>\<open>QueueClient.publish\<close>; \<^verbatim>\<open>list(message)\<close> is the list of the bytes as
  integers.\<close>

fun QueueClient_publish ::
  "QueueClient \<Rightarrow> string \<Rightarrow> bytes \<Rightarrow> http_request list \<Rightarrow> unit outcome" where
  "QueueClient_publish (QueueClient client cluster_id) topic message log =
     then_exc
       (ThroomClient_request client ''POST''
          (''/api/v1/clusters/'' @ cluster_id @ ''/queue/publish'')
          (Some (PDict [(''topic'', PStr topic), (''message'', PList (map (\<lambda>b. PInt (uint b)) message))]))
          None log)
       (\<lambda>data. Inr ())"

text \<open>\<^verbatim>\<open>QueueClient.subscribe\<close>; the handler is any value.\<close>

definition QueueClient_subscribe ::
  "QueueClient \<Rightarrow> string \<Rightarrow> 'h \<Rightarrow> http_request list \<Rightarrow> unit outcome" where
  "QueueClient_subscribe self topic handler log =
     (Inl (NotImplementedError ''Subscribe not yet implemented in SDK - use direct Kafka consumer''),
      log)"

declare DBClient_query.simps [simp del]

section \<open>Properties of gateway objects and example inputs\<close>

text \<open>The query parameters of the requests that an operation added to the log.\<close>

definition sent_params :: "http_request list \<Rightarrow> 'a outcome \<Rightarrow> pyval option list" where
  "sent_params log r = map req_params (drop (length log) (snd r))"

text \<open>
  What a cluster object of the gateway is, stated on the object alone. The value of a key
  of an object is \<^verbatim>\<open>None\<close> when the key is absent. A service object is a dictionary
  whose keys are fields of \<open>Service\<close> and include the five fields without a default. A
  cluster object is a dictionary with the keys \<^verbatim>\<open>id\<close>, \<^verbatim>\<open>name\<close> and
  \<^verbatim>\<open>created_at\<close>, whose key \<^verbatim>\<open>services\<close> is absent or holds an array of service
  objects; \<open>object_services\<close> are the elements of that array, in its order.
\<close>

fun object_value :: "pyval \<Rightarrow> string \<Rightarrow> pyval" where
  "object_value (PDict kvs) k = (case map_of kvs k of Some v \<Rightarrow> v | None \<Rightarrow> PNone)"
| "object_value v k = PNone"

fun service_object :: "pyval \<Rightarrow> bool" where
  "service_object (PDict kvs) =
     (fst ` set kvs \<subseteq> {''name'', ''type'', ''host'', ''port'', ''healthy'', ''username'',
                          ''database'', ''container_id''} \<and>
      {''name'', ''type'', ''host'', ''port'', ''healthy''} \<subseteq> fst ` set kvs)"
| "service_object v = False"

fun object_services :: "pyval \<Rightarrow> pyval list" where
  "object_services (PDict kvs) =
     (case map_of kvs ''services'' of Some (PList ss) \<Rightarrow> ss | _ \<Rightarrow> [])"
| "object_services v = []"

fun cluster_object :: "pyval \<Rightarrow> bool" where
  "cluster_object (PDict kvs) =
     ({''id'', ''name'', ''created_at''} \<subseteq> fst ` set kvs \<and>
      (case map_of kvs ''services'' of None \<Rightarrow> True | Some (PList ss) \<Rightarrow> True | _ \<Rightarrow> False) \<and>
      list_all service_object (object_services (PDict kvs)))"
| "cluster_object v = False"

text \<open>
  The record that a service object stands for, field by field, and the record that a
  cluster object stands for: its services are the records of its service objects, in
  their order.
\<close>

abbreviation object_record :: "pyval \<Rightarrow> Service" where
  "object_record s \<equiv>
     \<lparr>svc_name = object_value s ''name'', svc_type = object_value s ''type'',
      svc_host = object_value s ''host'', svc_port = object_value s ''port'',
      svc_healthy = object_value s ''healthy'', svc_username = object_value s ''username'',
      svc_database = object_value s ''database'',
      svc_container_id = object_value s ''container_id''\<rparr>"

abbreviation object_cluster :: "pyval \<Rightarrow> Cluster" where
  "object_cluster c \<equiv>
     \<lparr>cl_id = object_value c ''id'', cl_name = object_value c ''name'',
      cl_created_at = object_value c ''created_at'',
      cl_services = map (\<lambda>s. object_record s) (object_services c)\<rparr>"

text \<open>A session that gives every request the same outcome, and a client on it.\<close>

definition answering :: "response result \<Rightarrow> transport" where
  "answering r log req = r"

definition example_client :: "response result \<Rightarrow> ThroomClient" where
  "example_client r = ThroomClient_init (answering r) ''http://localhost:9000/'' 120"

definition encode :: "string \<Rightarrow> bytes" where
  "encode s = map of_char s"

text \<open>Responses: an empty 204, a 200 with a decoded body, a 201 for a created cluster, a
  404 with a JSON body, and a 404 whose body is plain text, where \<^verbatim>\<open>response.json()\<close>
  raises an exception of the class given.\<close>

definition no_content :: response where
  "no_content =
     \<lparr>resp_status_code = 204, resp_content = [], resp_text = [],
      resp_json = Inl (LibraryError RequestsJSONDecodeError_c
                         ''Expecting value: line 1 column 1 (char 0)'')\<rparr>"

definition ok_json :: "pyval \<Rightarrow> response" where
  "ok_json v =
     \<lparr>resp_status_code = 200, resp_content = encode ''{}'', resp_text = ''{}'',
      resp_json = Inr v\<rparr>"

definition created :: response where
  "created =
     \<lparr>resp_status_code = 201,
      resp_content = encode ''{\"cluster_id\": \"c-1\", \"message\": \"ok\"}'',
      resp_text = ''{\"cluster_id\": \"c-1\", \"message\": \"ok\"}'',
      resp_json = Inr (PDict [(''cluster_id'', PStr ''c-1''), (''message'', PStr ''ok'')])\<rparr>"

definition not_found_json :: response where
  "not_found_json =
     \<lparr>resp_status_code = 404, resp_content = encode ''{\"error\": \"cluster not found\"}'',
      resp_text = ''{\"error\": \"cluster not found\"}'',
      resp_json = Inr (PDict [(''error'', PStr ''cluster not found'')])\<rparr>"

definition not_found_plain :: "exc_class \<Rightarrow> response" where
  "not_found_plain c =
     \<lparr>resp_status_code = 404, resp_content = encode ''404 page not found'',
      resp_text = ''404 page not found'',
      resp_json = Inl (LibraryError c ''Extra data: line 1 column 5 (char 4)'')\<rparr>"

text \<open>Two service configurations, two service objects and a cluster object.\<close>

definition redis_config :: ServiceConfig where
  "redis_config =
     \<lparr>cfg_type = ''redis'', cfg_provision = True, cfg_port = 6380, cfg_host = None,
      cfg_username = None, cfg_password = None, cfg_database = None\<rparr>"

definition postgres_config :: ServiceConfig where
  "postgres_config =
     \<lparr>cfg_type = ''postgres'', cfg_provision = True, cfg_port = 5434, cfg_host = None,
      cfg_username = Some ''postgres'', cfg_password = Some ''password'',
      cfg_database = Some ''demo_db''\<rparr>"

definition redis_service :: pyval where
  "redis_service =
     PDict [(''name'', PStr ''redis-1''), (''type'', PStr ''redis''), (''host'', PStr ''localhost''),
            (''port'', PInt 6380), (''healthy'', PBool True), (''container_id'', PStr ''abc123'')]"

definition postgres_service :: pyval where
  "postgres_service =
     PDict [(''name'', PStr ''postgres-1''), (''type'', PStr ''postgres''),
            (''host'', PStr ''localhost''), (''port'', PInt 5434), (''healthy'', PBool False),
            (''username'', PStr ''postgres''), (''database'', PStr ''demo_db'')]"

definition demo_cluster :: pyval where
  "demo_cluster =
     PDict [(''id'', PStr ''c-1''), (''name'', PStr ''demo-cluster''),
            (''created_at'', PStr ''2025-01-01T00:00:00Z''),
            (''services'', PList [redis_service, postgres_service])]"

lemmas example_defs =
  example_client_def ThroomClient_init_def answering_def rstrip_slash_def encode_def
  ok_json_def no_content_def created_def not_found_plain_def not_found_json_def

section \<open>The transport wrapper\<close>

lemma fst_then_exc: "fst (then_exc r f) = bind_exc (fst r) f"
  by (simp add: then_exc_def)

lemma snd_then_exc: "snd (then_exc r f) = snd r"
  by (simp add: then_exc_def)

text \<open>Every call of \<^verbatim>\<open>_request\<close> makes one request, whatever its outcome.\<close>

lemma request_log:
  "snd (ThroomClient_request self method path data params log) =
     log @ [\<lparr>req_method = method, req_url = base_url self @ path, req_json = data,
             req_params = params, req_timeout = timeout self\<rparr>]"
  by (simp add: ThroomClient_request_def Let_def)

lemma request_raises:
  assumes "session self log \<lparr>req_method = method, req_url = base_url self @ path, req_json = data,
             req_params = params, req_timeout = timeout self\<rparr> = Inl e"
  shows "fst (ThroomClient_request self method path data params log) = Inl (except_clauses e)"
  using assms by (simp add: ThroomClient_request_def Let_def)

lemma request_success:
  assumes "session self log \<lparr>req_method = method, req_url = base_url self @ path, req_json = data,
             req_params = params, req_timeout = timeout self\<rparr> = Inr response"
    and "resp_status_code response < 400"
  shows "fst (ThroomClient_request self method path data params log) =
           (if resp_content response \<noteq> []
            then case_sum (\<lambda>e. Inl (except_clauses e)) Inr (resp_json response)
            else Inr PNone)"
  using assms by (simp add: ThroomClient_request_def Let_def)

lemma request_error_status:
  assumes "session self log \<lparr>req_method = method, req_url = base_url self @ path, req_json = data,
             req_params = params, req_timeout = timeout self\<rparr> = Inr response"
    and "resp_status_code response \<ge> 400"
  shows "fst (ThroomClient_request self method path data params log) =
           case_sum (\<lambda>e. Inl (except_clauses e)) Inr
             (bind_exc (if resp_content response \<noteq> [] then resp_json response
                           else Inr (PDict [])) (\<lambda>error_data.
                 bind_exc (py_get error_data ''message'' PNone) (\<lambda>m1.
                 bind_exc (py_get error_data ''error'' PNone) (\<lambda>m2.
                   Inl (ThroomAPIError
                         (''Throome API Error ('' @ str_int (resp_status_code response) @ ''): ''
                            @ py_str (py_or (py_or m1 m2) (PStr (resp_text response))))
                         (resp_status_code response))))))"
  using assms by (simp add: ThroomClient_request_def Let_def)

text \<open>
  An error status whose body is empty or decodes to a dictionary \<open>kvs\<close> raises
  \<open>ThroomAPIError\<close> with the status code; the message is the first truthy one of the
  \<^verbatim>\<open>message\<close> field, the \<^verbatim>\<open>error\<close> field and the text of the response.
\<close>

lemma request_api_error:
  assumes "session self log \<lparr>req_method = method, req_url = base_url self @ path, req_json = data,
             req_params = params, req_timeout = timeout self\<rparr> = Inr response"
    and "resp_status_code response \<ge> 400"
    and "if resp_content response = [] then kvs = [] else resp_json response = Inr (PDict kvs)"
  shows "fst (ThroomClient_request self method path data params log) =
           Inl (ThroomAPIError
                  (''Throome API Error ('' @ str_int (resp_status_code response) @ ''): '' @
                   py_str (py_or (py_or (case map_of kvs ''message'' of Some v \<Rightarrow> v | None \<Rightarrow> PNone)
                                        (case map_of kvs ''error'' of Some v \<Rightarrow> v | None \<Rightarrow> PNone))
                                 (PStr (resp_text response))))
                  (resp_status_code response))"
  using assms(3) by (simp add: request_error_status [OF assms(1,2)] split: if_splits)

lemma json_error_body:
  "fst (ThroomClient_get_cluster (example_client (Inr not_found_json)) ''missing-id'' []) =
     Inl (ThroomAPIError ''Throome API Error (404): cluster not found'' 404)"
  by (simp add: ThroomClient_get_cluster_def then_exc_def ThroomClient_request_def Let_def
      example_defs py_or_def str_int_def str_nat.simps digit_char_def)

text \<open>
  Claim C2: every response with a status of 400 or more raises an API error with the status
  code and a message taken from the \<^verbatim>\<open>message\<close> or \<^verbatim>\<open>error\<close> field of the body,
  or the raw text of the response when the body has neither or is not JSON. The code at a
  404 whose body is the plain text \<^verbatim>\<open>404 page not found\<close>: decoding the body raises
  inside the \<^verbatim>\<open>try\<close> block, so \<^verbatim>\<open>get_cluster\<close> raises a connection error when the
  decoder's exception is one of the HTTP library, and the decoder's own exception
  otherwise; in neither case an API error with the status code 404.
\<close>

theorem non_json_error_body:
  "ThroomClient_get_cluster (example_client (Inr (not_found_plain RequestsJSONDecodeError_c)))
      ''missing-id'' [] =
     (Inl (ThroomConnectionError ''Connection error: Extra data: line 1 column 5 (char 4)''),
      [\<lparr>req_method = ''GET'', req_url = ''http://localhost:9000/api/v1/clusters/missing-id'',
        req_json = None, req_params = None, req_timeout = 120\<rparr>]) \<and>
   ThroomClient_get_cluster (example_client (Inr (not_found_plain JSONDecodeError_c)))
      ''missing-id'' [] =
     (Inl (LibraryError JSONDecodeError_c ''Extra data: line 1 column 5 (char 4)''),
      [\<lparr>req_method = ''GET'', req_url = ''http://localhost:9000/api/v1/clusters/missing-id'',
        req_json = None, req_params = None, req_timeout = 120\<rparr>])"
  by (simp add: ThroomClient_get_cluster_def then_exc_def ThroomClient_request_def Let_def
      example_defs)

text \<open>
  Claim C3: a failure of the transport (a timeout, a refused connection, a failed name
  lookup: an exception of the HTTP library's class \<^verbatim>\<open>RequestException\<close>) makes
  \<^verbatim>\<open>_request\<close> raise \<open>ThroomConnectionError\<close>, whose message ends with the text of
  the cause; it is neither an API error nor the exception of the library.
\<close>

theorem transport_failure_is_connection_error:
  assumes "session self log \<lparr>req_method = method, req_url = base_url self @ path, req_json = data,
             req_params = params, req_timeout = timeout self\<rparr> = Inl e"
    and "isinstance e RequestException_c"
  shows "\<exists>c s. e = LibraryError c s \<and>
           fst (ThroomClient_request self method path data params log) =
             Inl (ThroomConnectionError
                    ((if isinstance e Timeout_c then ''Request timed out: ''
                      else ''Connection error: '') @ s))"
proof (cases e)
  case (LibraryError c s)
  with assms(2) have "RequestException_c \<in> set (mro c)"
    by (simp add: isinstance_def)
  with LibraryError request_raises [OF assms(1)] show ?thesis
    by (simp add: isinstance_def)
qed (use assms(2) in \<open>simp_all add: isinstance_def\<close>)

theorem transport_failure_is_connection_error_witness:
  "session (example_client (Inl (LibraryError ReadTimeout_c ''read timed out''))) []
     \<lparr>req_method = ''GET'', req_url = ''http://localhost:9000/api/v1/health'', req_json = None,
      req_params = None, req_timeout = 120\<rparr> = Inl (LibraryError ReadTimeout_c ''read timed out'') \<and>
   isinstance (LibraryError ReadTimeout_c ''read timed out'') RequestException_c \<and>
   fst (ThroomClient_request (example_client (Inl (LibraryError ReadTimeout_c ''read timed out'')))
      ''GET'' ''/api/v1/health'' None None []) =
     Inl (ThroomConnectionError ''Request timed out: read timed out'') \<and>
   isinstance (LibraryError ConnectionError_c ''connection refused'') RequestException_c \<and>
   fst (ThroomClient_request
      (example_client (Inl (LibraryError ConnectionError_c ''connection refused'')))
      ''GET'' ''/api/v1/health'' None None []) =
     Inl (ThroomConnectionError ''Connection error: connection refused'')"
  using transport_failure_is_connection_error
    [of "example_client (Inl (LibraryError ReadTimeout_c ''read timed out''))" "[]"
       "''GET''" "''/api/v1/health''" None None "LibraryError ReadTimeout_c ''read timed out''"]
    transport_failure_is_connection_error
    [of "example_client (Inl (LibraryError ConnectionError_c ''connection refused''))" "[]"
       "''GET''" "''/api/v1/health''" None None
       "LibraryError ConnectionError_c ''connection refused''"]
  by (simp add: example_defs isinstance_def)

text \<open>
  Claim C9: on a response with a status below 400, \<^verbatim>\<open>_request\<close> returns \<^verbatim>\<open>None\<close>
  when the body is empty, and the decoded body itself when there is one.
\<close>

theorem success_result:
  assumes "session self log \<lparr>req_method = method, req_url = base_url self @ path, req_json = data,
             req_params = params, req_timeout = timeout self\<rparr> = Inr response"
    and "resp_status_code response < 400"
  shows "(resp_content response = [] \<longrightarrow>
            fst (ThroomClient_request self method path data params log) = Inr PNone) \<and>
         (\<forall>v. resp_content response \<noteq> [] \<and> resp_json response = Inr v \<longrightarrow>
            fst (ThroomClient_request self method path data params log) = Inr v)"
  using request_success [OF assms] by simp

theorem success_result_witness:
  "resp_status_code no_content < 400 \<and> resp_content no_content = [] \<and>
   fst (ThroomClient_request (example_client (Inr no_content)) ''DELETE'' ''/api/v1/clusters/c-1''
          None None []) = Inr PNone \<and>
   resp_status_code created < 400 \<and> resp_content created \<noteq> [] \<and>
   fst (ThroomClient_request (example_client (Inr created)) ''POST'' ''/api/v1/clusters''
          None None []) = Inr (PDict [(''cluster_id'', PStr ''c-1''), (''message'', PStr ''ok'')])"
  using success_result [of "example_client (Inr no_content)" "[]" "''DELETE''"
          "''/api/v1/clusters/c-1''" None None no_content]
        success_result [of "example_client (Inr created)" "[]" "''POST''"
          "''/api/v1/clusters''" None None created]
  by (simp add: example_defs)

section \<open>The root client\<close>

subsection \<open>Creating a cluster\<close>

lemma create_cluster_sent:
  "snd (ThroomClient_create_cluster self name services log) =
     log @ [\<lparr>req_method = ''POST'', req_url = base_url self @ ''/api/v1/clusters'',
             req_json = Some (PDict [(''name'', PStr name),
               (''services'', PDict (map (\<lambda>(name, config).
                     (name,
                      PDict [(''type'', PStr (cfg_type config)),
                             (''port'', PInt (cfg_port config)),
                             (''host'', optional_str (cfg_host config)),
                             (''username'', optional_str (cfg_username config)),
                             (''password'', optional_str (cfg_password config)),
                             (''database'', optional_str (cfg_database config))]))
                   services))]),
             req_params = None, req_timeout = timeout self\<rparr>]"
  by (simp add: ThroomClient_create_cluster_def Let_def snd_then_exc request_log)

lemma map_of_items:
  assumes "distinct (map fst kvs)" and "(k, v) \<in> set kvs"
  shows "map_of (map (\<lambda>(k, v). (k, f v)) kvs) k = Some (f v)"
proof -
  from assms have "map_of kvs k = Some v"
    by (rule map_of_is_SomeI)
  then show ?thesis
    by (simp add: map_of_map)
qed

text \<open>
  Claim C1, amended to what the code does: for every mapping of service names to
  configurations and every item \<open>(n, c)\<close> of it, the body of the one request made has
  under \<^verbatim>\<open>services\<close> and \<open>n\<close> a dictionary in which \<^verbatim>\<open>type\<close> and \<^verbatim>\<open>port\<close>
  have the values of \<open>c\<close>, and each of \<^verbatim>\<open>host\<close>, \<^verbatim>\<open>username\<close>, \<^verbatim>\<open>password\<close>
  and \<^verbatim>\<open>database\<close> is present: with the value \<^verbatim>\<open>None\<close> when the caller left it
  unset, with its value when it is set.
\<close>

theorem create_cluster_entry:
  assumes "distinct (map fst services)" and "(n, c) \<in> set services"
  shows "\<exists>req body svcs entry.
           snd (ThroomClient_create_cluster self name services log) = log @ [req] \<and>
           req_json req = Some body \<and> py_getitem body ''services'' = Inr svcs \<and>
           py_getitem svcs n = Inr (PDict entry) \<and>
           map_of entry ''type'' = Some (PStr (cfg_type c)) \<and>
           map_of entry ''port'' = Some (PInt (cfg_port c)) \<and>
           map_of entry ''host'' = Some (case cfg_host c of None \<Rightarrow> PNone | Some s \<Rightarrow> PStr s) \<and>
           map_of entry ''username'' =
             Some (case cfg_username c of None \<Rightarrow> PNone | Some s \<Rightarrow> PStr s) \<and>
           map_of entry ''password'' =
             Some (case cfg_password c of None \<Rightarrow> PNone | Some s \<Rightarrow> PStr s) \<and>
           map_of entry ''database'' =
             Some (case cfg_database c of None \<Rightarrow> PNone | Some s \<Rightarrow> PStr s)"
proof -
  have opt: "optional_str x = (case x of None \<Rightarrow> PNone | Some s \<Rightarrow> PStr s)" for x
    by (cases x) simp_all
  show ?thesis
    unfolding create_cluster_sent
    by (simp add: map_of_items [OF assms] opt)
qed

theorem create_cluster_entry_witness:
  "distinct (map fst [(''redis-1'', redis_config), (''postgres-1'', postgres_config)]) \<and>
   (''postgres-1'', postgres_config)
     \<in> set [(''redis-1'', redis_config), (''postgres-1'', postgres_config)] \<and>
   (\<exists>req body svcs entry.
      snd (ThroomClient_create_cluster (example_client (Inr created)) ''demo-cluster''
             [(''redis-1'', redis_config), (''postgres-1'', postgres_config)] []) = [req] \<and>
      req_json req = Some body \<and> py_getitem body ''services'' = Inr svcs \<and>
      py_getitem svcs ''postgres-1'' = Inr (PDict entry) \<and>
      map_of entry ''host'' = Some PNone \<and> map_of entry ''username'' = Some (PStr ''postgres''))"
  using create_cluster_entry [of "[(''redis-1'', redis_config), (''postgres-1'', postgres_config)]"
          "''postgres-1''" postgres_config "example_client (Inr created)" "''demo-cluster''" "[]"]
  by (simp add: postgres_config_def) blast

text \<open>
  The claim as the specification has it, that an unset optional field is omitted from the
  entry, fails: for a configuration with no host, user name, password or database, the
  four keys are in the entry with the value \<^verbatim>\<open>None\<close>, which the encoder writes as
  \<^verbatim>\<open>null\<close>.
\<close>

theorem create_cluster_null_counterexample:
  "cfg_host redis_config = None \<and>
   map req_json (snd (ThroomClient_create_cluster (example_client (Inr created)) ''demo-cluster''
      [(''redis-1'', redis_config)] [])) =
     [Some (PDict [(''name'', PStr ''demo-cluster''),
        (''services'', PDict [(''redis-1'',
           PDict [(''type'', PStr ''redis''), (''port'', PInt 6380), (''host'', PNone),
                  (''username'', PNone), (''password'', PNone), (''database'', PNone)])])])]"
  by (simp add: create_cluster_sent redis_config_def)

subsection \<open>Activity logs\<close>

text \<open>
  Claim C5: each of the three \<^verbatim>\<open>get_activity\<close> operations makes one request; it has no
  query parameters when there is no filter, or the filter has no limit or the limit 0, and
  the parameter \<^verbatim>\<open>limit\<close> with the given value when the limit is positive.
\<close>

theorem activity_limit_param:
  "(filters = None \<or> (\<exists>f. filters = Some f \<and> (limit f = None \<or> limit f = Some 0)) \<longrightarrow>
      sent_params log (ThroomClient_get_activity self filters log) = [None] \<and>
      sent_params log (ClusterClient_get_activity cc filters log) = [None] \<and>
      sent_params log (ServiceClient_get_activity sc filters log) = [None]) \<and>
   (\<forall>f n. filters = Some f \<and> limit f = Some n \<and> 0 < n \<longrightarrow>
      sent_params log (ThroomClient_get_activity self filters log) =
        [Some (PDict [(''limit'', PInt n)])] \<and>
      sent_params log (ClusterClient_get_activity cc filters log) =
        [Some (PDict [(''limit'', PInt n)])] \<and>
      sent_params log (ServiceClient_get_activity sc filters log) =
        [Some (PDict [(''limit'', PInt n)])])"
  by (cases cc; cases sc)
     (auto simp: sent_params_def ThroomClient_get_activity_def Let_def snd_then_exc request_log)

theorem activity_limit_param_witness:
  "sent_params [] (ThroomClient_get_activity (example_client (Inr (ok_json (PList [])))) None [])
     = [None] \<and>
   sent_params [] (ClusterClient_get_activity
      (ClusterClient (example_client (Inr (ok_json (PList [])))) ''c-1'') None []) = [None] \<and>
   sent_params [] (ServiceClient_get_activity
      (ServiceClient (example_client (Inr (ok_json (PList [])))) ''c-1'' ''redis-1'') None [])
     = [None] \<and>
   limit \<lparr>limit = Some 10\<rparr> = Some 10 \<and>
   sent_params [] (ThroomClient_get_activity (example_client (Inr (ok_json (PList []))))
      (Some \<lparr>limit = Some 10\<rparr>) []) = [Some (PDict [(''limit'', PInt 10)])] \<and>
   sent_params [] (ClusterClient_get_activity
      (ClusterClient (example_client (Inr (ok_json (PList [])))) ''c-1'')
      (Some \<lparr>limit = Some 10\<rparr>) []) = [Some (PDict [(''limit'', PInt 10)])] \<and>
   sent_params [] (ServiceClient_get_activity
      (ServiceClient (example_client (Inr (ok_json (PList [])))) ''c-1'' ''redis-1'')
      (Some \<lparr>limit = Some 10\<rparr>) []) = [Some (PDict [(''limit'', PInt 10)])] \<and>
   limit \<lparr>limit = Some 0\<rparr> = Some 0 \<and>
   sent_params [] (ThroomClient_get_activity (example_client (Inr (ok_json (PList []))))
      (Some \<lparr>limit = Some 0\<rparr>) []) = [None]"
  using activity_limit_param [of "Some \<lparr>limit = Some 0\<rparr>" "[]"
          "example_client (Inr (ok_json (PList [])))"
          "ClusterClient (example_client (Inr (ok_json (PList [])))) ''c-1''"
          "ServiceClient (example_client (Inr (ok_json (PList [])))) ''c-1'' ''redis-1''"]
        activity_limit_param [of None "[]" "example_client (Inr (ok_json (PList [])))"
          "ClusterClient (example_client (Inr (ok_json (PList [])))) ''c-1''"
          "ServiceClient (example_client (Inr (ok_json (PList [])))) ''c-1'' ''redis-1''"]
        activity_limit_param [of "Some \<lparr>limit = Some 10\<rparr>" "[]"
          "example_client (Inr (ok_json (PList [])))"
          "ClusterClient (example_client (Inr (ok_json (PList [])))) ''c-1''"
          "ServiceClient (example_client (Inr (ok_json (PList [])))) ''c-1'' ''redis-1''"]
  by simp

subsection \<open>Clusters from gateway objects\<close>

lemma service_object_parses:
  assumes "service_object s"
  shows "Service_init s = Inr (object_record s)"
proof (cases s)
  case (PDict kvs)
  with assms show ?thesis
    by (simp add: Service_init_def kwargs_def list_all_iff subset_eq)
qed (use assms in simp_all)

lemma comprehension_map:
  assumes "\<And>x. x \<in> set xs \<Longrightarrow> f x = Inr (g x)"
  shows "comprehension f xs = Inr (map g xs)"
  using assms by (induction xs) simp_all

lemma services_of_objects:
  assumes "list_all service_object ss"
  shows "comprehension Service_init ss = Inr (map (\<lambda>s. object_record s) ss)"
proof (rule comprehension_map)
  fix s
  assume "s \<in> set ss"
  with assms have "service_object s"
    by (simp add: list_all_iff)
  then show "Service_init s = Inr (object_record s)"
    by (rule service_object_parses)
qed

lemma key_lookup: "k \<in> fst ` set kvs \<Longrightarrow> \<exists>v. map_of kvs k = Some v"
  by (cases "map_of kvs k") (simp_all add: map_of_eq_None_iff)

lemma cluster_of_object:
  assumes "cluster_object c"
  shows "bind_exc (py_getitem c ''id'') (\<lambda>i.
         bind_exc (py_getitem c ''name'') (\<lambda>n.
         bind_exc (py_getitem c ''created_at'') (\<lambda>t.
         bind_exc (py_get c ''services'' (PList [])) (\<lambda>sv.
         bind_exc (py_iter sv) (\<lambda>ss.
         bind_exc (comprehension Service_init ss) (\<lambda>services.
           Inr \<lparr>cl_id = i, cl_name = n, cl_created_at = t, cl_services = services\<rparr>))))))
         = Inr (object_cluster c)"
proof (cases c)
  case (PDict kvs)
  from assms PDict obtain i where i: "map_of kvs ''id'' = Some i"
    using key_lookup [of "''id''" kvs] by auto
  from assms PDict obtain n where n: "map_of kvs ''name'' = Some n"
    using key_lookup [of "''name''" kvs] by auto
  from assms PDict obtain t where t: "map_of kvs ''created_at'' = Some t"
    using key_lookup [of "''created_at''" kvs] by auto
  note keys = i n t
  from assms PDict have objs: "list_all service_object (object_services (PDict kvs))"
    by simp
  from assms PDict have iter:
    "py_iter (case map_of kvs ''services'' of None \<Rightarrow> PList [] | Some v \<Rightarrow> v) =
       Inr (object_services (PDict kvs))"
    by (auto split: option.splits pyval.splits)
  show ?thesis
    using PDict keys iter services_of_objects [OF objs] by simp
qed (use assms in simp_all)

text \<open>
  Claim C6: when the gateway answers \<^verbatim>\<open>get_cluster\<close> with a cluster object, the
  operation returns the \<open>Cluster\<close> with the object's \<^verbatim>\<open>id\<close>, \<^verbatim>\<open>name\<close> and
  \<^verbatim>\<open>created_at\<close>, whose services are as many as the object has service objects, the
  service at each position having in every field the value that the service object at that
  position has under the field's name (\<^verbatim>\<open>None\<close> for an absent optional field). When
  it answers \<^verbatim>\<open>list_clusters\<close> with a list of cluster objects, the operation returns
  one such \<open>Cluster\<close> for each, in the order of the list.
\<close>

theorem cluster_services_in_order:
  "(fst (ThroomClient_request self ''GET'' (''/api/v1/clusters/'' @ cluster_id) None None log)
       = Inr data \<and> cluster_object data \<longrightarrow>
     (\<exists>c. fst (ThroomClient_get_cluster self cluster_id log) = Inr c \<and>
          c = object_cluster data \<and>
          length (cl_services c) = length (object_services data) \<and>
          (\<forall>i < length (object_services data).
             cl_services c ! i = object_record (object_services data ! i)))) \<and>
   (fst (ThroomClient_request self ''GET'' ''/api/v1/clusters'' None None log) = Inr (PList cs) \<and>
      list_all cluster_object cs \<longrightarrow>
     (\<exists>clusters. fst (ThroomClient_list_clusters self log) = Inr clusters \<and>
          clusters = map (\<lambda>c. object_cluster c) cs \<and>
          length clusters = length cs \<and>
          (\<forall>j < length cs.
             length (cl_services (clusters ! j)) = length (object_services (cs ! j)) \<and>
             (\<forall>i < length (object_services (cs ! j)).
                cl_services (clusters ! j) ! i = object_record (object_services (cs ! j) ! i)))))"
proof (intro conjI impI)
  assume a: "fst (ThroomClient_request self ''GET'' (''/api/v1/clusters/'' @ cluster_id) None None log)
       = Inr data \<and> cluster_object data"
  then have "fst (ThroomClient_get_cluster self cluster_id log) = Inr (object_cluster data)"
    using cluster_of_object [of data]
    by (simp add: ThroomClient_get_cluster_def fst_then_exc)
  then show "\<exists>c. fst (ThroomClient_get_cluster self cluster_id log) = Inr c \<and>
          c = object_cluster data \<and>
          length (cl_services c) = length (object_services data) \<and>
          (\<forall>i < length (object_services data).
             cl_services c ! i = object_record (object_services data ! i))"
    by simp
next
  assume a: "fst (ThroomClient_request self ''GET'' ''/api/v1/clusters'' None None log)
       = Inr (PList cs) \<and> list_all cluster_object cs"
  let ?f = "\<lambda>c. bind_exc (py_getitem c ''id'') (\<lambda>i.
         bind_exc (py_getitem c ''name'') (\<lambda>n.
         bind_exc (py_getitem c ''created_at'') (\<lambda>t.
         bind_exc (py_get c ''services'' (PList [])) (\<lambda>sv.
         bind_exc (py_iter sv) (\<lambda>ss.
         bind_exc (comprehension Service_init ss) (\<lambda>services.
           Inr \<lparr>cl_id = i, cl_name = n, cl_created_at = t, cl_services = services\<rparr>))))))"
  have "comprehension ?f cs = Inr (map (\<lambda>c. object_cluster c) cs)"
  proof (rule comprehension_map)
    fix c
    assume "c \<in> set cs"
    with a have "cluster_object c"
      by (simp add: list_all_iff)
    then show "?f c = Inr (object_cluster c)"
      by (rule cluster_of_object)
  qed
  with a have "fst (ThroomClient_list_clusters self log) = Inr (map (\<lambda>c. object_cluster c) cs)"
    by (simp add: ThroomClient_list_clusters_def fst_then_exc)
  then show "\<exists>clusters. fst (ThroomClient_list_clusters self log) = Inr clusters \<and>
          clusters = map (\<lambda>c. object_cluster c) cs \<and>
          length clusters = length cs \<and>
          (\<forall>j < length cs.
             length (cl_services (clusters ! j)) = length (object_services (cs ! j)) \<and>
             (\<forall>i < length (object_services (cs ! j)).
                cl_services (clusters ! j) ! i = object_record (object_services (cs ! j) ! i)))"
    by simp
qed

theorem cluster_services_in_order_witness:
  "fst (ThroomClient_request (example_client (Inr (ok_json demo_cluster))) ''GET''
          (''/api/v1/clusters/'' @ ''c-1'') None None []) = Inr demo_cluster \<and>
   cluster_object demo_cluster \<and>
   fst (ThroomClient_get_cluster (example_client (Inr (ok_json demo_cluster))) ''c-1'' []) =
     Inr \<lparr>cl_id = PStr ''c-1'', cl_name = PStr ''demo-cluster'',
          cl_created_at = PStr ''2025-01-01T00:00:00Z'',
          cl_services =
            [\<lparr>svc_name = PStr ''redis-1'', svc_type = PStr ''redis'',
              svc_host = PStr ''localhost'', svc_port = PInt 6380, svc_healthy = PBool True,
              svc_username = PNone, svc_database = PNone,
              svc_container_id = PStr ''abc123''\<rparr>,
             \<lparr>svc_name = PStr ''postgres-1'', svc_type = PStr ''postgres'',
              svc_host = PStr ''localhost'', svc_port = PInt 5434, svc_healthy = PBool False,
              svc_username = PStr ''postgres'', svc_database = PStr ''demo_db'',
              svc_container_id = PNone\<rparr>]\<rparr> \<and>
   fst (ThroomClient_request (example_client (Inr (ok_json (PList [demo_cluster])))) ''GET''
          ''/api/v1/clusters'' None None []) = Inr (PList [demo_cluster]) \<and>
   list_all cluster_object [demo_cluster] \<and>
   (\<exists>clusters. fst (ThroomClient_list_clusters
                      (example_client (Inr (ok_json (PList [demo_cluster])))) [])
           = Inr clusters \<and> length clusters = 1 \<and>
        map svc_name (cl_services (clusters ! 0)) = [PStr ''redis-1'', PStr ''postgres-1''])"
proof -
  have r1: "fst (ThroomClient_request (example_client (Inr (ok_json demo_cluster))) ''GET''
          (''/api/v1/clusters/'' @ ''c-1'') None None []) = Inr demo_cluster"
    by (simp add: ThroomClient_request_def Let_def example_client_def ThroomClient_init_def
        answering_def ok_json_def encode_def)
  have r2: "fst (ThroomClient_request (example_client (Inr (ok_json (PList [demo_cluster]))))
          ''GET'' ''/api/v1/clusters'' None None []) = Inr (PList [demo_cluster])"
    by (simp add: ThroomClient_request_def Let_def example_client_def ThroomClient_init_def
        answering_def ok_json_def encode_def)
  have c: "cluster_object demo_cluster"
    by (simp add: demo_cluster_def redis_service_def postgres_service_def)
  have v: "object_cluster demo_cluster =
     \<lparr>cl_id = PStr ''c-1'', cl_name = PStr ''demo-cluster'',
          cl_created_at = PStr ''2025-01-01T00:00:00Z'',
          cl_services =
            [\<lparr>svc_name = PStr ''redis-1'', svc_type = PStr ''redis'',
              svc_host = PStr ''localhost'', svc_port = PInt 6380, svc_healthy = PBool True,
              svc_username = PNone, svc_database = PNone,
              svc_container_id = PStr ''abc123''\<rparr>,
             \<lparr>svc_name = PStr ''postgres-1'', svc_type = PStr ''postgres'',
              svc_host = PStr ''localhost'', svc_port = PInt 5434, svc_healthy = PBool False,
              svc_username = PStr ''postgres'', svc_database = PStr ''demo_db'',
              svc_container_id = PNone\<rparr>]\<rparr>"
    by (simp add: demo_cluster_def redis_service_def postgres_service_def)
  show ?thesis
    using cluster_services_in_order [of "example_client (Inr (ok_json demo_cluster))" "''c-1''"
        "[]" demo_cluster "[demo_cluster]"]
      cluster_services_in_order [of "example_client (Inr (ok_json (PList [demo_cluster])))"
        "''c-1''" "[]" demo_cluster "[demo_cluster]"]
    using r1 r2 c by (simp add: v)
qed

lemma Service_init_example:
  "Service_init postgres_service =
     Inr \<lparr>svc_name = PStr ''postgres-1'', svc_type = PStr ''postgres'',
          svc_host = PStr ''localhost'', svc_port = PInt 5434, svc_healthy = PBool False,
          svc_username = PStr ''postgres'', svc_database = PStr ''demo_db'',
          svc_container_id = PNone\<rparr>"
  by (simp add: Service_init_def kwargs_def postgres_service_def)

section \<open>The database client\<close>

lemma query_log:
  "length (snd (DBClient_query self q args log)) = Suc (length log)"
  by (cases self) (simp add: DBClient_query.simps snd_then_exc request_log)

text \<open>
  Claim C4: \<^verbatim>\<open>query_row\<close> makes the one request of its call of \<^verbatim>\<open>query\<close> and no
  other. When \<^verbatim>\<open>query\<close> returns a list of rows, \<^verbatim>\<open>query_row\<close> raises the
  \<open>ValueError\<close> for an empty result, which has no status code, if and only if the list is
  empty, and returns the first row as it is otherwise.
\<close>

theorem query_row_first_row:
  "snd (DBClient_query_row self q args log) = snd (DBClient_query self q args log) \<and>
   length (snd (DBClient_query_row self q args log)) = Suc (length log) \<and>
   (\<forall>rows. fst (DBClient_query self q args log) = Inr (PList rows) \<longrightarrow>
      (fst (DBClient_query_row self q args log) = Inl (ValueError ''No rows returned'')
         \<longleftrightarrow> rows = []) \<and>
      status_code (ValueError ''No rows returned'') = None \<and>
      (\<forall>r rs. rows = r # rs \<longrightarrow> fst (DBClient_query_row self q args log) = Inr r))"
proof -
  have log: "snd (DBClient_query_row self q args log) = snd (DBClient_query self q args log)"
    by (simp add: DBClient_query_row_def snd_then_exc)
  have rows: "fst (DBClient_query_row self q args log) =
                (case rows of [] \<Rightarrow> Inl (ValueError ''No rows returned'') | r # rs \<Rightarrow> Inr r)"
    if "fst (DBClient_query self q args log) = Inr (PList rows)" for rows
    using that by (cases rows) (simp_all add: DBClient_query_row_def fst_then_exc)
  show ?thesis
    using log query_log [of self q args log] by (auto simp: rows split: list.splits)
qed

theorem query_row_first_row_witness:
  "fst (DBClient_query
          (DBClient (example_client (Inr (ok_json (PDict [(''rows'', PList [])])))) ''c-1'')
          ''SELECT * FROM users'' [] []) = Inr (PList []) \<and>
   fst (DBClient_query_row
          (DBClient (example_client (Inr (ok_json (PDict [(''rows'', PList [])])))) ''c-1'')
          ''SELECT * FROM users'' [] []) = Inl (ValueError ''No rows returned'') \<and>
   length (snd (DBClient_query_row
          (DBClient (example_client (Inr (ok_json (PDict [(''rows'', PList [])])))) ''c-1'')
          ''SELECT * FROM users'' [] [])) = 1 \<and>
   fst (DBClient_query
          (DBClient (example_client (Inr (ok_json (PDict [(''rows'',
             PList [PDict [(''id'', PInt 1)], PDict [(''id'', PInt 2)]])])))) ''c-1'')
          ''SELECT * FROM users'' [] [])
     = Inr (PList [PDict [(''id'', PInt 1)], PDict [(''id'', PInt 2)]]) \<and>
   fst (DBClient_query_row
          (DBClient (example_client (Inr (ok_json (PDict [(''rows'',
             PList [PDict [(''id'', PInt 1)], PDict [(''id'', PInt 2)]])])))) ''c-1'')
          ''SELECT * FROM users'' [] []) = Inr (PDict [(''id'', PInt 1)])"
proof -
  let ?empty = "DBClient (example_client (Inr (ok_json (PDict [(''rows'', PList [])])))) ''c-1''"
  let ?two = "DBClient (example_client (Inr (ok_json (PDict [(''rows'',
          PList [PDict [(''id'', PInt 1)], PDict [(''id'', PInt 2)]])])))) ''c-1''"
  have e: "fst (DBClient_query ?empty ''SELECT * FROM users'' [] []) = Inr (PList [])"
    by (simp add: DBClient_query.simps then_exc_def ThroomClient_request_def Let_def example_defs)
  have t: "fst (DBClient_query ?two ''SELECT * FROM users'' [] []) =
             Inr (PList [PDict [(''id'', PInt 1)], PDict [(''id'', PInt 2)]])"
    by (simp add: DBClient_query.simps then_exc_def ThroomClient_request_def Let_def example_defs)
  show ?thesis
    using query_row_first_row [of ?empty "''SELECT * FROM users''" "[]" "[]"]
      query_row_first_row [of ?two "''SELECT * FROM users''" "[]" "[]"]
    by (simp add: e t query_log)
qed

section \<open>The queue client\<close>

text \<open>
  Claim C7: \<^verbatim>\<open>publish\<close> makes one request, whose body has under \<^verbatim>\<open>message\<close> a list
  of integers as long as the message; the integer at each position is the byte of the
  message at that position, between 0 and 255.
\<close>

theorem publish_message_bytes:
  "\<exists>req body ms. snd (QueueClient_publish qc topic message log) = log @ [req] \<and>
      req_json req = Some body \<and> py_getitem body ''message'' = Inr (PList ms) \<and>
      length ms = length message \<and>
      (\<forall>i < length message. \<exists>n. ms ! i = PInt n \<and> 0 \<le> n \<and> n \<le> 255 \<and> n = uint (message ! i))"
proof (cases qc)
  case (QueueClient client cluster_id)
  have "uint b \<le> 255" for b :: "8 word"
    using uint_bounded [of b] by simp
  then show ?thesis
    using QueueClient by (simp add: snd_then_exc request_log)
qed

theorem publish_message_bytes_witness:
  "\<exists>req body ms.
      snd (QueueClient_publish (QueueClient (example_client (Inr no_content)) ''c-1'') ''events''
             [0x68, 0x69, 0xFF] []) = [req] \<and>
      req_json req = Some body \<and> py_getitem body ''message'' = Inr (PList ms) \<and>
      length ms = 3 \<and> ms ! 0 = PInt 104 \<and> ms ! 1 = PInt 105 \<and> ms ! 2 = PInt 255"
  using publish_message_bytes [of "QueueClient (example_client (Inr no_content)) ''c-1''"
          "''events''" "[0x68, 0x69, 0xFF]" "[]"]
  by (simp add: snd_then_exc request_log)

text \<open>
  Claim C8: for every topic and handler, \<^verbatim>\<open>subscribe\<close> raises an exception of the
  class \<^verbatim>\<open>NotImplementedError\<close> and makes no request: the log is unchanged.
\<close>

theorem subscribe_not_implemented:
  "\<exists>e. QueueClient_subscribe self topic handler log = (Inl e, log) \<and>
        class_of e = NotImplementedError_c"
  by (simp add: QueueClient_subscribe_def)

section \<open>The error classes\<close>

text \<open>
  Claim C10: the error that \<^verbatim>\<open>query_row\<close> raises for an empty result and the error
  that \<^verbatim>\<open>subscribe\<close> raises are not instances of \<^verbatim>\<open>ThroomError\<close>, the class of which
  the API error and the connection error are instances.
\<close>

theorem local_errors_not_throom_errors:
  "(fst (DBClient_query self q args log) = Inr (PList []) \<longrightarrow>
      (\<exists>e. fst (DBClient_query_row self q args log) = Inl e \<and> \<not> isinstance e ThroomError_c)) \<and>
   (\<exists>e. fst (QueueClient_subscribe qc topic handler log) = Inl e \<and> \<not> isinstance e ThroomError_c) \<and>
   isinstance (ThroomAPIError m sc) ThroomError_c \<and>
   isinstance (ThroomConnectionError m) ThroomError_c"
  by (simp add: DBClient_query_row_def fst_then_exc QueueClient_subscribe_def isinstance_def)

theorem local_errors_not_throom_errors_witness:
  "fst (DBClient_query
          (DBClient (example_client (Inr (ok_json (PDict [(''rows'', PList [])])))) ''c-1'')
          ''SELECT 1'' [] []) = Inr (PList []) \<and>
   (\<exists>e. fst (DBClient_query_row
               (DBClient (example_client (Inr (ok_json (PDict [(''rows'', PList [])])))) ''c-1'')
               ''SELECT 1'' [] []) = Inl e \<and> \<not> isinstance e ThroomError_c) \<and>
   (\<exists>e. fst (QueueClient_subscribe (QueueClient (example_client (Inr no_content)) ''c-1'')
               ''events'' () []) = Inl e \<and> \<not> isinstance e ThroomError_c)"
proof -
  let ?empty = "DBClient (example_client (Inr (ok_json (PDict [(''rows'', PList [])])))) ''c-1''"
  have e: "fst (DBClient_query ?empty ''SELECT 1'' [] []) = Inr (PList [])"
    by (simp add: DBClient_query.simps then_exc_def ThroomClient_request_def Let_def example_defs)
  show ?thesis
    using local_errors_not_throom_errors [of ?empty "''SELECT 1''" "[]" "[]"
        "QueueClient (example_client (Inr no_content)) ''c-1''" "''events''" "()" "[]" 0]
    by (simp add: e)
qed

end
